theory Spec2Isabelle
  imports Main
begin

section \<open>JavaScript values and the built-ins the service relies on\<close>

text \<open>
  The dataset is whatever \<^verbatim>\<open>JSON.parse\<close> returns. An object is kept as the list of its
  own properties in enumeration order (keys are distinct after parsing), an array as the
  list of its elements. Strings are byte sequences (UTF-8).

  A number is an IEEE double. The service never computes with numbers: it tests them
  for truthiness, copies them and prints them. A number is therefore kept as the text
  that Number::toString gives for it (\<^verbatim>\<open>3\<close>, \<^verbatim>\<open>4.5\<close>, \<^verbatim>\<open>1e+21\<close>, \<^verbatim>\<open>Infinity\<close>),
  which determines the double up to the sign of zero; both zeros print as \<^verbatim>\<open>0\<close> and
  are falsy alike.
\<close>

type_synonym number = string

datatype json =
    JNull
  | JBool bool
  | JNum number
  | JStr string
  | JArr "json list"
  | JObj "(string \<times> json) list"

text \<open>Everything the service throws or receives from a provider carries a message.\<close>

datatype error =
    Error string
  | TypeError string
  | SyntaxError string
  | BadRequestException string

fun message :: "error \<Rightarrow> string" where
  "message (Error m) = m"
| "message (TypeError m) = m"
| "message (SyntaxError m) = m"
| "message (BadRequestException m) = m"

text \<open>
  \<^verbatim>\<open>item[field]\<close>: reading a property of \<^verbatim>\<open>null\<close> throws; an object yields its own
  property or \<^verbatim>\<open>undefined\<close> (here \<open>None\<close>); arrays and primitives have none of the
  field names the service asks for, neither as own nor as inherited properties.
\<close>

fun getProp :: "json \<Rightarrow> string \<Rightarrow> error + json option" where
  "getProp JNull k =
     Inl (TypeError (''Cannot read properties of null (reading '' @ [CHR 0x27] @ k @ [CHR 0x27] @ '')''))"
| "getProp (JObj kvs) k = Inr (map_of kvs k)"
| "getProp _ k = Inr None"

text \<open>JavaScript truthiness (ToBoolean) of a value that may be \<^verbatim>\<open>undefined\<close>.\<close>

fun truthy :: "json option \<Rightarrow> bool" where
  "truthy None = False"
| "truthy (Some JNull) = False"
| "truthy (Some (JBool b)) = b"
| "truthy (Some (JNum n)) = (n \<noteq> ''0'' \<and> n \<noteq> ''NaN'')"
| "truthy (Some (JStr s)) = (s \<noteq> [])"
| "truthy (Some (JArr _)) = True"
| "truthy (Some (JObj _)) = True"

fun typeof :: "json option \<Rightarrow> string" where
  "typeof None = ''undefined''"
| "typeof (Some JNull) = ''object''"
| "typeof (Some (JBool _)) = ''boolean''"
| "typeof (Some (JNum _)) = ''number''"
| "typeof (Some (JStr _)) = ''string''"
| "typeof (Some (JArr _)) = ''object''"
| "typeof (Some (JObj _)) = ''object''"

text \<open>
  The number that is an array position or an array length, below \<open>2^32\<close>: its text is
  its decimal digits.
\<close>

definition digit :: "nat \<Rightarrow> char" where
  "digit d = ''0123456789'' ! d"

fun show_nat :: "nat \<Rightarrow> number" where
  "show_nat n = (if n < 10 then [digit n] else show_nat (n div 10) @ [digit (n mod 10)])"

declare show_nat.simps [simp del]

text \<open>\<^verbatim>\<open>Array.prototype.join\<close> on a list of strings.\<close>

fun join :: "string \<Rightarrow> string list \<Rightarrow> string" where
  "join sep [] = []"
| "join sep [x] = x"
| "join sep (x # y # ys) = x @ sep @ join sep (y # ys)"

text \<open>
  ToString, as applied by a template literal \<^verbatim>\<open>`${v}`\<close>: a string is itself, an array is
  its elements joined by commas (\<^verbatim>\<open>null\<close> elements render empty), any other object is
  \<^verbatim>\<open>[object Object]\<close>.
\<close>

fun js_toString :: "json \<Rightarrow> string" where
  "js_toString JNull = ''null''"
| "js_toString (JBool b) = (if b then ''true'' else ''false'')"
| "js_toString (JNum n) = n"
| "js_toString (JStr s) = s"
| "js_toString (JArr xs) =
     join '','' (map (\<lambda>x. if x = JNull then [] else js_toString x) xs)"
| "js_toString (JObj kvs) = ''[object Object]''"

definition template :: "json option \<Rightarrow> string" where
  "template v = (case v of None \<Rightarrow> ''undefined'' | Some x \<Rightarrow> js_toString x)"

text \<open>
  \<^verbatim>\<open>JSON.stringify(value, null, 2)\<close>: a finite number is written as Number::toString
  gives it, any other number as \<^verbatim>\<open>null\<close>; QuoteJSONString escapes the quote, the
  backslash and the control characters; nested arrays and objects are indented by two
  spaces per level, empty ones are written \<^verbatim>\<open>[]\<close> and \<^verbatim>\<open>{}\<close>.
\<close>

definition hexDigit :: "nat \<Rightarrow> char" where
  "hexDigit d = ''0123456789abcdef'' ! d"

definition quoteChar :: "char \<Rightarrow> string" where
  "quoteChar c =
     (if c = CHR 0x22 then [CHR 0x5C, CHR 0x22]
      else if c = CHR 0x5C then [CHR 0x5C, CHR 0x5C]
      else if c = CHR 0x08 then [CHR 0x5C, CHR ''b'']
      else if c = CHR 0x0C then [CHR 0x5C, CHR ''f'']
      else if c = CHR 0x0A then [CHR 0x5C, CHR ''n'']
      else if c = CHR 0x0D then [CHR 0x5C, CHR ''r'']
      else if c = CHR 0x09 then [CHR 0x5C, CHR ''t'']
      else if of_char c < (32::nat) then
        [CHR 0x5C, CHR ''u'', CHR ''0'', CHR ''0'',
         hexDigit (of_char c div 16), hexDigit (of_char c mod 16)]
      else [c])"

definition quoteJSONString :: "string \<Rightarrow> string" where
  "quoteJSONString s = [CHR 0x22] @ concat (map quoteChar s) @ [CHR 0x22]"

fun serialize :: "string \<Rightarrow> json \<Rightarrow> string" where
  "serialize ind JNull = ''null''"
| "serialize ind (JBool b) = (if b then ''true'' else ''false'')"
| "serialize ind (JNum n) =
     (if n \<in> set [''Infinity'', ''-Infinity'', ''NaN''] then ''null'' else n)"
| "serialize ind (JStr s) = quoteJSONString s"
| "serialize ind (JArr xs) =
     (if xs = [] then ''[]''
      else ''['' @ [CHR 0x0A] @ (ind @ ''  '') @
           join ('','' @ [CHR 0x0A] @ (ind @ ''  '')) (map (serialize (ind @ ''  '')) xs) @
           [CHR 0x0A] @ ind @ '']'')"
| "serialize ind (JObj kvs) =
     (if kvs = [] then ''{}''
      else ''{'' @ [CHR 0x0A] @ (ind @ ''  '') @
           join ('','' @ [CHR 0x0A] @ (ind @ ''  ''))
             (map (\<lambda>(k, v). quoteJSONString k @ '': '' @ serialize (ind @ ''  '') v) kvs) @
           [CHR 0x0A] @ ind @ ''}'')"

definition JSON_stringify :: "json \<Rightarrow> string" where
  "JSON_stringify v = serialize [] v"

section \<open>Documents built from the dataset\<close>

text \<open>
  A LangChain \<^verbatim>\<open>Document\<close>: the text that is embedded and an object of metadata, kept
  as the list of its properties in insertion order.
\<close>

record document =
  pageContent :: string
  metadata :: "(string \<times> json) list"

text \<open>\<^verbatim>\<open>obj[k] = v\<close> on such an object: overwrite in place or append.\<close>

fun obj_set :: "(string \<times> json) list \<Rightarrow> string \<Rightarrow> json \<Rightarrow> (string \<times> json) list" where
  "obj_set [] k v = [(k, v)]"
| "obj_set ((k', v') # kvs) k v =
     (if k' = k then (k, v) # kvs else (k', v') # obj_set kvs k v)"

text \<open>The object spread \<^verbatim>\<open>{...base, ...extra}\<close>.\<close>

definition spread :: "(string \<times> json) list \<Rightarrow> (string \<times> json) list \<Rightarrow> (string \<times> json) list" where
  "spread base extra = foldl (\<lambda>acc (k, v). obj_set acc k v) base extra"

definition contentFields :: "string list" where
  "contentFields =
     [''nama'', ''name'', ''title'', ''judul'', ''deskripsi'', ''description'', ''desc'',
      ''kategori'', ''category'', ''jenis'', ''type'', ''alamat'', ''address'', ''lokasi'',
      ''location'', ''produk'', ''product'', ''layanan'', ''service'', ''keterangan'',
      ''info'', ''detail'']"

text \<open>
  The \<^verbatim>\<open>contentFields.forEach\<close> loop of \<^verbatim>\<open>extractContentFromItem\<close>, with the
  array \<^verbatim>\<open>contentParts\<close> passed along. A throwing property read leaves the loop.
\<close>

fun contentLoop :: "json \<Rightarrow> string list \<Rightarrow> string list \<Rightarrow> error + string list" where
  "contentLoop item [] contentParts = Inr contentParts"
| "contentLoop item (field # rest) contentParts =
     (case getProp item field of
        Inl e \<Rightarrow> Inl e
      | Inr v \<Rightarrow>
          if truthy v \<and> typeof v = ''string''
          then contentLoop item rest (contentParts @ [field @ '': '' @ template v])
          else contentLoop item rest contentParts)"

definition extractContentFromItem :: "json \<Rightarrow> error + string" where
  "extractContentFromItem item =
     (case contentLoop item contentFields [] of
        Inl e \<Rightarrow> Inl e
      | Inr contentParts \<Rightarrow>
          Inr (join [CHR 0x0A]
                (if length contentParts = 0 then contentParts @ [JSON_stringify item]
                 else contentParts)))"

definition metadataFields :: "string list" where
  "metadataFields =
     [''id'', ''kategori'', ''category'', ''jenis'', ''type'', ''alamat'', ''address'',
      ''kota'', ''city'', ''provinsi'', ''province'']"

fun metadataLoop ::
  "json \<Rightarrow> string list \<Rightarrow> (string \<times> json) list \<Rightarrow> error + (string \<times> json) list" where
  "metadataLoop item [] md = Inr md"
| "metadataLoop item (field # rest) md =
     (case getProp item field of
        Inl e \<Rightarrow> Inl e
      | Inr None \<Rightarrow> metadataLoop item rest md
      | Inr (Some x) \<Rightarrow>
          if truthy (Some x) then metadataLoop item rest (obj_set md field x)
          else metadataLoop item rest md)"

definition extractMetadataFromItem :: "json \<Rightarrow> error + (string \<times> json) list" where
  "extractMetadataFromItem item = metadataLoop item metadataFields []"

text \<open>
  The body shared by both branches of \<^verbatim>\<open>loadDocuments\<close>: the content is extracted
  first, then the metadata literal is evaluated.
\<close>

definition makeDocument :: "json \<Rightarrow> nat \<Rightarrow> error + document" where
  "makeDocument item index =
     (case extractContentFromItem item of
        Inl e \<Rightarrow> Inl e
      | Inr content \<Rightarrow>
          (case extractMetadataFromItem item of
             Inl e \<Rightarrow> Inl e
           | Inr extra \<Rightarrow>
               Inr \<lparr>pageContent = content,
                    metadata = spread [(''source'', JStr ''dataset_umkm.json''),
                                       (''index'', JNum (show_nat index))] extra\<rparr>))"

text \<open>\<^verbatim>\<open>jsonData.forEach((item, index) => ...)\<close> pushing onto \<^verbatim>\<open>documents\<close>.\<close>

fun forEachItem :: "json list \<Rightarrow> nat \<Rightarrow> document list \<Rightarrow> error + document list" where
  "forEachItem [] index documents = Inr documents"
| "forEachItem (item # rest) index documents =
     (case makeDocument item index of
        Inl e \<Rightarrow> Inl e
      | Inr d \<Rightarrow> forEachItem rest (Suc index) (documents @ [d]))"

definition buildDocuments :: "json \<Rightarrow> error + document list" where
  "buildDocuments jsonData =
     (case jsonData of
        JArr items \<Rightarrow> forEachItem items 0 []
      | _ \<Rightarrow> (case makeDocument jsonData 0 of Inl e \<Rightarrow> Inl e | Inr d \<Rightarrow> Inr ([] @ [d])))"

section \<open>The service\<close>

text \<open>
  What the file system and \<^verbatim>\<open>JSON.parse\<close> hand to \<^verbatim>\<open>loadDocuments\<close>: no file,
  a file that does not parse (with the parser's message), or the parsed value.
\<close>

datatype dataset_file = NoFile | BadJson string | Parsed json

text \<open>What a call leaves behind: log lines and calls of the question-answering chain.\<close>

datatype event =
    LogInfo string
  | LogError string error
  | ChainCall string

text \<open>
  The value a \<^verbatim>\<open>RetrievalQAChain\<close> call resolves to; a key that is absent is \<open>None\<close>.
  The chain itself (retriever over the vector store, prompt, chat model) is library and
  provider code: calling it with a query yields such a value or fails.
\<close>

record chain_values =
  resultText :: "string option"
  resultAnswer :: "string option"
  sourceDocuments :: "document list option"

type_synonym chain = "string \<Rightarrow> error + chain_values"

record RagQueryResponse =
  answer :: string
  sources :: "string list"

record service =
  qaChain :: "chain option"

text \<open>
  The surroundings of \<^verbatim>\<open>initializeRag\<close>: the configured key, the dataset path and
  file, and the library calls that turn documents into a chain
  (\<^verbatim>\<open>MemoryVectorStore.fromDocuments\<close>, \<^verbatim>\<open>asRetriever({k})\<close>,
  \<^verbatim>\<open>RetrievalQAChain.fromLLM\<close> with the prompt), which embed the documents remotely
  and may fail.
\<close>

record env =
  apiKey :: "string option"
  jsonPath :: string
  datasetFile :: dataset_file
  fromDocuments :: "nat \<Rightarrow> string \<Rightarrow> document list \<Rightarrow> error + chain"

definition promptTemplate :: string where
  "promptTemplate = join [CHR 0x0A]
     [
      '''',
      ''        Namamu Adalah Sentinela'',
      ''        Gunakan konteks berikut untuk menjawab pertanyaan tentang UMKM (Usaha Mikro, Kecil, dan Menengah).'',
      ''        Berikan jawaban yang informatif dan akurat berdasarkan data yang tersedia.'',
      ''        '',
      ''        Konteks:'',
      ''        {context}'',
      ''        '',
      ''        Pertanyaan: {question}'',
      ''        '',
      ''        Jawaban:'',
      ''      ''
     ]"

definition loadDocuments :: "string \<Rightarrow> dataset_file \<Rightarrow> event list \<times> (error + document list)" where
  "loadDocuments path dataset =
     (case (case dataset of
              NoFile \<Rightarrow> Inl (Error (''Dataset file not found at: '' @ path))
            | BadJson m \<Rightarrow> Inl (SyntaxError m)
            | Parsed jsonData \<Rightarrow> buildDocuments jsonData) of
        Inl e \<Rightarrow> ([LogError ''Error loading documents:'' e], Inl e)
      | Inr documents \<Rightarrow>
          ([LogInfo (''Loaded '' @ show_nat (length documents) @ '' documents from JSON file'')],
           Inr documents))"

definition initializeRag :: "env \<Rightarrow> event list \<times> (error + service)" where
  "initializeRag ev =
     (let start = [LogInfo ''Initializing RAG system...''];
          failed = (\<lambda>evs e. (evs @ [LogError ''Failed to initialize RAG system:'' e], Inl e))
      in if \<not> (case apiKey ev of None \<Rightarrow> False | Some k \<Rightarrow> k \<noteq> [])
         then failed start (BadRequestException ''GEMINI_API_KEY is not configured'')
         else (case loadDocuments (jsonPath ev) (datasetFile ev) of
                 (evs, Inl e) \<Rightarrow> failed (start @ evs) e
               | (evs, Inr documents) \<Rightarrow>
                   (case fromDocuments ev 5 promptTemplate documents of
                      Inl e \<Rightarrow> failed (start @ evs) e
                    | Inr c \<Rightarrow>
                        (start @ evs @ [LogInfo ''RAG system initialized successfully''],
                         Inr \<lparr>qaChain = Some c\<rparr>))))"

text \<open>
  The \<^verbatim>\<open>sourceDocuments.forEach((doc, index) => ...)\<close> loop of \<^verbatim>\<open>askQuestion\<close>
  and its body.
\<close>

definition sourceLine :: "document \<Rightarrow> nat \<Rightarrow> string" where
  "sourceLine doc index =
     (let source = (if truthy (map_of (metadata doc) ''source'')
                    then map_of (metadata doc) ''source''
                    else Some (JStr ''Unknown source''));
          docIndex = (if map_of (metadata doc) ''index'' \<noteq> None
                      then map_of (metadata doc) ''index''
                      else Some (JNum (show_nat index)))
      in template source @ '' (Document '' @ template docIndex @ '')'')"

fun sourcesLoop :: "document list \<Rightarrow> nat \<Rightarrow> string list \<Rightarrow> string list" where
  "sourcesLoop [] index acc = acc"
| "sourcesLoop (doc # rest) index acc =
     sourcesLoop rest (Suc index) (acc @ [sourceLine doc index])"

text \<open>\<^verbatim>\<open>[...new Set(xs)]\<close>: a set keeps the first insertion of each element, in order.\<close>

definition setAdd :: "'a list \<Rightarrow> 'a \<Rightarrow> 'a list" where
  "setAdd s x = (if x \<in> set s then s else s @ [x])"

definition newSet :: "'a list \<Rightarrow> 'a list" where
  "newSet xs = foldl setAdd [] xs"

text \<open>\<^verbatim>\<open>a || b\<close> where \<open>a\<close> is a string or \<^verbatim>\<open>undefined\<close>.\<close>

definition orElse :: "string option \<Rightarrow> string \<Rightarrow> string" where
  "orElse a b = (case a of None \<Rightarrow> b | Some x \<Rightarrow> if x = [] then b else x)"

definition askQuestion :: "service \<Rightarrow> string \<Rightarrow> event list \<times> (error + RagQueryResponse)" where
  "askQuestion svc query =
     (let caught = (\<lambda>evs e. (evs @ [LogError ''Error processing query:'' e],
                             Inl (Error (''Failed to process query: '' @ message e))))
      in case qaChain svc of
           None \<Rightarrow> caught [] (Error ''RAG system is not initialized'')
         | Some c \<Rightarrow>
             (let evs = [LogInfo (''Processing query: '' @ query), ChainCall query]
              in case c query of
                   Inl e \<Rightarrow> caught evs e
                 | Inr result \<Rightarrow>
                     (let collected = (case sourceDocuments result of
                                         None \<Rightarrow> []
                                       | Some docs \<Rightarrow> sourcesLoop docs 0 [])
                      in (evs,
                          Inr \<lparr>answer =
                                 orElse (resultText result)
                                   (orElse (resultAnswer result)
                                      ''Tidak dapat menemukan jawaban yang sesuai.''),
                               sources = newSet collected\<rparr>))))"

definition insightsPrompt :: string where
  "insightsPrompt = join [CHR 0x0A]
     [
      ''Buatkan key insight dan key strategy berdasarkan data di atas.'',
      ''  '',
      ''  **Pola Penting:**'',
      ''  1. Hubungan antara sentimen positif dan engagement: Apakah benar konten positif menghasilkan engagement 40% lebih tinggi?'',
      ''  2. Analisis sentimen netral: Peluang apa yang bisa ditangkap UMKM untuk meningkatkan daya saing dari opini yang belum jelas positif/negative?'',
      ''  3. Dari sentimen positif, aspek apa yang paling sering dipuji (harga, kualitas, pelayanan, inovasi)? Bagaimana UMKM bisa memanfaatkan hal ini untuk branding?'',
      ''  4. Berdasarkan analisis sentimen, strategi komunikasi digital apa yang sebaiknya dijalankan UMKM untuk meningkatkan citra di media sosial?'',
      ''  5. Mengapa hanya 0.6% konten yang berhasil memicu emosi positif?'',
      ''  6. Potensi Tersembunyi: Apakah ada postingan netral dengan engagement tinggi yang sebenarnya bisa dikategorikan positif?'',
      ''  7. Analisis bagaimana UMKM lokal di Indonesia saat ini memanfaatkan media sosial untuk membangun citra brand. Identifikasi gap antara penggunaan media sosial tradisional dengan pendekatan analisis sentimen yang lebih canggih. Berikan data statistik terkini dan contoh kasus nyata.'',
      ''  '',
      ''  **Arah Analisis:**'',
      ''  - Fokus pada: Strategi konten'',
      ''  - Tujuan: Meningkatkan engagement melalui konten yang lebih emosional'',
      ''  - Stakeholder: Tim marketing'',
      ''  '',
      ''  **Format Output:**'',
      ''  1. **Headline Insight**: 1 kalimat singkat yang paling mencolok'',
      ''  2. **Data Pendukung**: 3-5 angka kunci terkait'',
      ''  3. **Analisis Mendalam**:'',
      ''     - Penyebab potensial'',
      ''     - Implikasi bisnis'',
      ''     - Perbandingan dengan benchmark'',
      ''  4. **Rekomendasi Aksi**:'',
      ''     - 2-3 langkah konkret'',
      ''     - Timeline implementasi'',
      ''     - Metrik sukses'',
      ''  5. **Risiko & Peluang**:'',
      ''     - Risiko jika tidak diatasi'',
      ''     - Peluang yang bisa dimanfaatkan'',
      ''  6. **Saran dan Strategy**:'',
      ''     - Saran untuk UMKM kedepannya'',
      ''     - Strategy yang nanti digunakan kedepannya'',
      ''  '',
      ''  **Tingkat Kedalaman:** Komprehensif'',
      ''  '',
      ''  Berikan jawaban yang terstruktur dan mendalam berdasarkan data yang tersedia.''
     ]"

definition getInsights :: "service \<Rightarrow> event list \<times> (error + RagQueryResponse)" where
  "getInsights svc =
     (case askQuestion svc insightsPrompt of
        (evs, Inr result) \<Rightarrow> (evs, Inr result)
      | (evs, Inl e) \<Rightarrow>
          (evs @ [LogError ''Error getting insights:'' e],
           Inl (Error (''Failed to generate insights: '' @ message e))))"

section \<open>The controller\<close>

text \<open>
  \<^verbatim>\<open>String.prototype.trim\<close> removes white space and line terminators from both ends:
  tab, line feed, vertical tab, form feed, carriage return, space, and (in UTF-8) the
  no-break space, the Unicode space separators, the line and paragraph separators and
  the byte order mark.
\<close>

definition whiteSpace :: "string list" where
  "whiteSpace =
     [[CHR 0x09], [CHR 0x0A], [CHR 0x0B], [CHR 0x0C], [CHR 0x0D], [CHR 0x20],
      [CHR 0xC2, CHR 0xA0], [CHR 0xE1, CHR 0x9A, CHR 0x80],
      [CHR 0xE2, CHR 0x80, CHR 0x80], [CHR 0xE2, CHR 0x80, CHR 0x81],
      [CHR 0xE2, CHR 0x80, CHR 0x82], [CHR 0xE2, CHR 0x80, CHR 0x83],
      [CHR 0xE2, CHR 0x80, CHR 0x84], [CHR 0xE2, CHR 0x80, CHR 0x85],
      [CHR 0xE2, CHR 0x80, CHR 0x86], [CHR 0xE2, CHR 0x80, CHR 0x87],
      [CHR 0xE2, CHR 0x80, CHR 0x88], [CHR 0xE2, CHR 0x80, CHR 0x89],
      [CHR 0xE2, CHR 0x80, CHR 0x8A], [CHR 0xE2, CHR 0x80, CHR 0xA8],
      [CHR 0xE2, CHR 0x80, CHR 0xA9], [CHR 0xE2, CHR 0x80, CHR 0xAF],
      [CHR 0xE2, CHR 0x81, CHR 0x9F], [CHR 0xE3, CHR 0x80, CHR 0x80],
      [CHR 0xEF, CHR 0xBB, CHR 0xBF]]"

fun stripLeading :: "string list \<Rightarrow> string \<Rightarrow> string" where
  "stripLeading ws [] = []"
| "stripLeading ws (c # cs) =
     (case find (\<lambda>w. w \<noteq> [] \<and> take (length w) (c # cs) = w) ws of
        None \<Rightarrow> c # cs
      | Some w \<Rightarrow> stripLeading ws (drop (length w - 1) cs))"

definition trim :: "string \<Rightarrow> string" where
  "trim s = rev (stripLeading (map rev whiteSpace) (rev (stripLeading whiteSpace s)))"

record CreateQueryDto =
  question :: string

text \<open>
  \<^verbatim>\<open>RagController.query\<close>. The response object it builds has the two fields of
  \<^verbatim>\<open>RagQueryResponse\<close>; an error of the service goes through untouched.
\<close>

definition RagController_query ::
  "service \<Rightarrow> CreateQueryDto \<Rightarrow> event list \<times> (error + RagQueryResponse)" where
  "RagController_query svc queryDto =
     (case askQuestion svc (trim (question queryDto)) of
        (evs, Inl e) \<Rightarrow> (evs, Inl e)
      | (evs, Inr result) \<Rightarrow> (evs, Inr \<lparr>answer = answer result, sources = sources result\<rparr>))"

section \<open>Observations on a run\<close>

fun chainCalls :: "event list \<Rightarrow> string list" where
  "chainCalls [] = []"
| "chainCalls (ChainCall q # evs) = q # chainCalls evs"
| "chainCalls (_ # evs) = chainCalls evs"

fun errorsLogged :: "event list \<Rightarrow> (string \<times> error) list" where
  "errorsLogged [] = []"
| "errorsLogged (LogError m e # evs) = (m, e) # errorsLogged evs"
| "errorsLogged (_ # evs) = errorsLogged evs"

section \<open>Vocabulary of the properties\<close>

text \<open>
  The value a record holds under a field name (\<open>None\<close> when the record has no such
  field or is not an object), the same restricted to non-empty strings, and restricted
  to truthy values.
\<close>

definition ownField :: "json \<Rightarrow> string \<Rightarrow> json option" where
  "ownField item f = (case item of JObj kvs \<Rightarrow> map_of kvs f | _ \<Rightarrow> None)"

definition stringField :: "json \<Rightarrow> string \<Rightarrow> string option" where
  "stringField item f =
     (case ownField item f of Some (JStr s) \<Rightarrow> if s = [] then None else Some s | _ \<Rightarrow> None)"

definition truthyField :: "json \<Rightarrow> string \<Rightarrow> json option" where
  "truthyField item f = (if truthy (ownField item f) then ownField item f else None)"

text \<open>
  The document text as the specification words it: one line per allow-listed field that
  is present in the record, the pretty-printed record when none is.
\<close>

definition content_spec :: "json \<Rightarrow> string" where
  "content_spec item =
     (let ls = List.map_filter
                 (\<lambda>f. map_option (\<lambda>v. f @ '': '' @ js_toString v) (ownField item f))
                 contentFields
      in if ls = [] then JSON_stringify item else join [CHR 0x0A] ls)"

text \<open>
  The metadata as the specification words it: source label, position, and a copy of
  every allow-listed field that is present in the record.
\<close>

definition metadata_spec :: "nat \<Rightarrow> json \<Rightarrow> (string \<times> json) list" where
  "metadata_spec i item =
     [(''source'', JStr ''dataset_umkm.json''), (''index'', JNum (show_nat i))] @
     List.map_filter (\<lambda>f. map_option (Pair f) (ownField item f)) metadataFields"


section \<open>Document text\<close>

lemma show_nat_0 [simp]: "show_nat 0 = ''0''"
  by (simp add: show_nat.simps digit_def)

lemma getProp_nonnull: "item \<noteq> JNull \<Longrightarrow> getProp item f = Inr (ownField item f)"
  by (cases item) (simp_all add: ownField_def)

lemma string_guard:
  "(truthy v \<and> typeof v = ''string'') = (\<exists>s. v = Some (JStr s) \<and> s \<noteq> [])"
  by (cases v rule: truthy.cases) simp_all

lemma contentLoop_nonnull:
  "item \<noteq> JNull \<Longrightarrow>
   contentLoop item fs acc =
     Inr (acc @ List.map_filter (\<lambda>f. map_option (\<lambda>s. f @ '': '' @ s) (stringField item f)) fs)"
proof (induction fs arbitrary: acc)
  case Nil
  then show ?case by simp
next
  case (Cons f fs)
  show ?case
  proof (cases "\<exists>s. ownField item f = Some (JStr s) \<and> s \<noteq> []")
    case True
    then obtain s where s: "ownField item f = Some (JStr s)" "s \<noteq> []" by blast
    then have "stringField item f = Some s" by (simp add: stringField_def)
    with s Cons show ?thesis
      by (simp add: getProp_nonnull template_def)
  next
    case False
    then have g: "\<not> (truthy (ownField item f) \<and> typeof (ownField item f) = ''string'')"
      by (simp only: string_guard not_False_eq_True)
    from False have "stringField item f = None"
      by (auto simp: stringField_def split: option.splits json.splits)
    with g Cons show ?thesis
      by (simp add: getProp_nonnull)
  qed
qed

lemma extractContent_nonnull:
  assumes "item \<noteq> JNull"
  shows "extractContentFromItem item =
           Inr (let ls = List.map_filter
                           (\<lambda>f. map_option (\<lambda>s. f @ '': '' @ s) (stringField item f))
                           contentFields
                in if ls = [] then JSON_stringify item else join [CHR 0x0A] ls)"
  using assms by (simp add: extractContentFromItem_def contentLoop_nonnull Let_def)

lemma extractContent_null:
  "extractContentFromItem JNull =
     Inl (TypeError (''Cannot read properties of null (reading '' @ [CHR 0x27] @ ''nama'' @
                     [CHR 0x27] @ '')''))"
  by (simp add: extractContentFromItem_def contentFields_def)

text \<open>
  C1, as worded, fails: a field that is present but does not hold a non-empty string
  gets no line. The record \<^verbatim>\<open>{"nama": "Kopi Kita", "kategori": 3}\<close> yields the single
  line for \<^verbatim>\<open>nama\<close>, where the wording asks for a second line \<^verbatim>\<open>kategori: 3\<close>.
\<close>

theorem extractContentFromItem_counterexample:
  "extractContentFromItem (JObj [(''nama'', JStr ''Kopi Kita''), (''kategori'', JNum ''3'')])
     = Inr ''nama: Kopi Kita''
   \<and> content_spec (JObj [(''nama'', JStr ''Kopi Kita''), (''kategori'', JNum ''3'')])
     = ''nama: Kopi Kita'' @ [CHR 0x0A] @ ''kategori: 3''
   \<and> extractContentFromItem (JObj [(''nama'', JStr ''Kopi Kita''), (''kategori'', JNum ''3'')])
     \<noteq> Inr (content_spec (JObj [(''nama'', JStr ''Kopi Kita''), (''kategori'', JNum ''3'')]))"
  by (simp add: extractContentFromItem_def contentFields_def template_def content_spec_def
      ownField_def show_nat.simps digit_def)

text \<open>
  C1 (amended): for every record other than \<^verbatim>\<open>null\<close>, the document text consists of one
  line \<^verbatim>\<open><field>: <value>\<close> for each field of the allow-list whose value in the record
  is a non-empty string, in the allow-list's order, joined by newlines; when no
  allow-listed field holds a non-empty string, the text is the pretty-printed JSON of
  the record.
\<close>

theorem extractContentFromItem_text:
  assumes "item \<noteq> JNull"
  shows "extractContentFromItem item =
           Inr (let ls = List.map_filter
                           (\<lambda>f. map_option (\<lambda>s. f @ '': '' @ s) (stringField item f))
                           contentFields
                in if ls = [] then JSON_stringify item else join [CHR 0x0A] ls)"
  using assms by (rule extractContent_nonnull)

theorem extractContentFromItem_text_witness:
  "JObj [(''nama'', JStr ''Kopi Kita''), (''kategori'', JNum ''3''),
         (''alamat'', JStr ''Jl. Mawar 1'')] \<noteq> JNull
   \<and> extractContentFromItem
        (JObj [(''nama'', JStr ''Kopi Kita''), (''kategori'', JNum ''3''),
               (''alamat'', JStr ''Jl. Mawar 1'')])
     = Inr (''nama: Kopi Kita'' @ [CHR 0x0A] @ ''alamat: Jl. Mawar 1'')"
  using extractContentFromItem_text
          [of "JObj [(''nama'', JStr ''Kopi Kita''), (''kategori'', JNum ''3''),
                     (''alamat'', JStr ''Jl. Mawar 1'')]"]
  by (simp add: contentFields_def stringField_def ownField_def)

text \<open>
  The fallback at work: a record without any usable field is pretty-printed, its
  numbers as JavaScript prints them (\<^verbatim>\<open>{"id": 1e21, "rating": 4.5}\<close>).
\<close>

lemma extractContentFromItem_fallback_example:
  "extractContentFromItem (JObj [(''id'', JNum ''1e+21''), (''rating'', JNum ''4.5'')])
     = Inr (''{'' @ [CHR 0x0A] @
            ''  '' @ [CHR 0x22] @ ''id'' @ [CHR 0x22] @ '': 1e+21,'' @ [CHR 0x0A] @
            ''  '' @ [CHR 0x22] @ ''rating'' @ [CHR 0x22] @ '': 4.5'' @ [CHR 0x0A] @
            ''}'')"
  using extractContent_nonnull [of "JObj [(''id'', JNum ''1e+21''), (''rating'', JNum ''4.5'')]"]
  by (simp add: contentFields_def stringField_def ownField_def
       JSON_stringify_def quoteJSONString_def quoteChar_def)

section \<open>Document metadata\<close>

lemma obj_set_fresh: "k \<notin> fst ` set md \<Longrightarrow> obj_set md k v = md @ [(k, v)]"
  by (induction md) auto

lemma spread_fresh:
  "distinct (map fst extra) \<Longrightarrow> fst ` set base \<inter> fst ` set extra = {} \<Longrightarrow>
   spread base extra = base @ extra"
  unfolding spread_def
proof (induction extra arbitrary: base)
  case Nil
  then show ?case by simp
next
  case (Cons kv extra)
  obtain k v where kv: "kv = (k, v)" by (cases kv)
  from Cons.prems kv have fresh: "k \<notin> fst ` set base" by auto
  from Cons.prems have "distinct (map fst extra)" by simp
  moreover from Cons.prems kv have "fst ` set (base @ [(k, v)]) \<inter> fst ` set extra = {}"
    by (auto simp: image_iff)
  ultimately have "foldl (\<lambda>acc (k, v). obj_set acc k v) (base @ [(k, v)]) extra
                     = (base @ [(k, v)]) @ extra"
    by (rule Cons.IH)
  with fresh kv show ?case by (simp add: obj_set_fresh)
qed

lemma truthyFields_keys:
  "map fst (List.map_filter (\<lambda>f. map_option (Pair f) (g f)) fs) = filter (\<lambda>f. g f \<noteq> None) fs"
  by (induction fs) (auto simp: split: option.splits)

lemma metadataLoop_nonnull:
  "item \<noteq> JNull \<Longrightarrow> distinct fs \<Longrightarrow> set fs \<inter> fst ` set md = {} \<Longrightarrow>
   metadataLoop item fs md =
     Inr (md @ List.map_filter (\<lambda>f. map_option (Pair f) (truthyField item f)) fs)"
proof (induction fs arbitrary: md)
  case Nil
  then show ?case by simp
next
  case (Cons f fs)
  from Cons.prems have fresh: "f \<notin> fst ` set md" and d: "distinct fs" and nf: "f \<notin> set fs"
    and disj: "set fs \<inter> fst ` set md = {}"
    by auto
  show ?case
  proof (cases "truthy (ownField item f)")
    case True
    then obtain x where x: "ownField item f = Some x" by (cases "ownField item f") auto
    with True have tf: "truthyField item f = Some x" by (simp add: truthyField_def)
    from disj nf have "set fs \<inter> fst ` set (md @ [(f, x)]) = {}" by auto
    with Cons.prems(1) d have
      "metadataLoop item fs (md @ [(f, x)]) =
         Inr ((md @ [(f, x)]) @ List.map_filter (\<lambda>f. map_option (Pair f) (truthyField item f)) fs)"
      by (rule Cons.IH)
    with True x tf fresh Cons.prems(1) show ?thesis
      by (simp add: getProp_nonnull obj_set_fresh)
  next
    case False
    then have tf: "truthyField item f = None" by (simp add: truthyField_def)
    from Cons.prems(1) d disj have
      "metadataLoop item fs md =
         Inr (md @ List.map_filter (\<lambda>f. map_option (Pair f) (truthyField item f)) fs)"
      by (rule Cons.IH)
    with False tf Cons.prems(1) show ?thesis
      by (cases "ownField item f") (simp_all add: getProp_nonnull)
  qed
qed

lemma extractMetadata_nonnull:
  "item \<noteq> JNull \<Longrightarrow>
   extractMetadataFromItem item =
     Inr (List.map_filter (\<lambda>f. map_option (Pair f) (truthyField item f)) metadataFields)"
  using metadataLoop_nonnull [of item metadataFields "[]"]
  by (simp add: extractMetadataFromItem_def metadataFields_def)

lemma makeDocument_nonnull:
  assumes "item \<noteq> JNull"
  shows "\<exists>content. extractContentFromItem item = Inr content \<and>
     makeDocument item i =
       Inr \<lparr>pageContent = content,
            metadata = [(''source'', JStr ''dataset_umkm.json''), (''index'', JNum (show_nat i))] @
                       List.map_filter (\<lambda>f. map_option (Pair f) (truthyField item f))
                         metadataFields\<rparr>"
proof -
  let ?extra = "List.map_filter (\<lambda>f. map_option (Pair f) (truthyField item f)) metadataFields"
  let ?base = "[(''source'', JStr ''dataset_umkm.json''), (''index'', JNum (show_nat i))]"
  from assms obtain content where c: "extractContentFromItem item = Inr content"
    by (simp add: extractContent_nonnull)
  have keys: "map fst ?extra = filter (\<lambda>f. truthyField item f \<noteq> None) metadataFields"
    by (rule truthyFields_keys)
  have "distinct metadataFields" by (simp add: metadataFields_def)
  with keys have d: "distinct (map fst ?extra)" by simp
  have "set (map fst ?extra) \<subseteq> set metadataFields" unfolding keys by auto
  moreover have "''source'' \<notin> set metadataFields" "''index'' \<notin> set metadataFields"
    by (simp_all add: metadataFields_def)
  ultimately have "fst ` set ?base \<inter> fst ` set ?extra = {}" by auto
  with d have "spread ?base ?extra = ?base @ ?extra" by (rule spread_fresh)
  with c assms show ?thesis
    by (simp add: makeDocument_def extractMetadata_nonnull)
qed

lemma forEachItem_nonnull:
  "JNull \<notin> set items \<Longrightarrow>
   \<exists>docs. forEachItem items k acc = Inr (acc @ docs) \<and> length docs = length items \<and>
          (\<forall>i < length items. makeDocument (items ! i) (k + i) = Inr (docs ! i))"
proof (induction items arbitrary: k acc)
  case Nil
  then show ?case by simp
next
  case (Cons item items)
  from Cons.prems have "item \<noteq> JNull" by auto
  then obtain d where d: "makeDocument item k = Inr d"
    using makeDocument_nonnull [of item k] by blast
  from Cons.prems have "JNull \<notin> set items" by simp
  from Cons.IH [OF this, of "Suc k" "acc @ [d]"] obtain docs where
    run: "forEachItem items (Suc k) (acc @ [d]) = Inr ((acc @ [d]) @ docs)" and
    len: "length docs = length items" and
    each: "\<forall>i < length items. makeDocument (items ! i) (Suc k + i) = Inr (docs ! i)"
    by blast
  have "\<forall>i < length (item # items). makeDocument ((item # items) ! i) (k + i) = Inr ((d # docs) ! i)"
  proof (intro allI impI)
    fix i assume "i < length (item # items)"
    then show "makeDocument ((item # items) ! i) (k + i) = Inr ((d # docs) ! i)"
      using d each by (cases i) simp_all
  qed
  with d run len show ?case
    by (intro exI [of _ "d # docs"]) simp
qed

lemma loadDocuments_array:
  assumes "JNull \<notin> set items"
  shows "\<exists>docs. loadDocuments path (Parsed (JArr items)) =
            ([LogInfo (''Loaded '' @ show_nat (length items) @ '' documents from JSON file'')],
             Inr docs) \<and>
          length docs = length items \<and>
          (\<forall>i < length items. makeDocument (items ! i) i = Inr (docs ! i))"
proof -
  from forEachItem_nonnull [OF assms, of 0 "[]"] obtain docs where
    "forEachItem items 0 [] = Inr docs" "length docs = length items"
    "\<forall>i < length items. makeDocument (items ! i) i = Inr (docs ! i)"
    by auto
  then show ?thesis
    by (intro exI [of _ docs]) (simp add: loadDocuments_def buildDocuments_def)
qed

text \<open>
  C2, as worded, fails: a field that is present but holds a falsy value (\<^verbatim>\<open>0\<close>, the
  empty string, \<^verbatim>\<open>false\<close>, \<^verbatim>\<open>null\<close>) is not copied. For the dataset
  \<^verbatim>\<open>[{"nama": "Kopi Kita", "id": 0, "kota": "Bandung"}]\<close> the metadata has no
  \<^verbatim>\<open>id\<close>, where the wording asks for \<^verbatim>\<open>id: 0\<close>.
\<close>

theorem loadDocuments_metadata_counterexample:
  "loadDocuments ''/app/src/common/data/json/dataset_umkm.json''
     (Parsed (JArr [JObj [(''nama'', JStr ''Kopi Kita''), (''id'', JNum ''0''),
                          (''kota'', JStr ''Bandung'')]]))
   = ([LogInfo ''Loaded 1 documents from JSON file''],
      Inr [\<lparr>pageContent = ''nama: Kopi Kita'',
            metadata = [(''source'', JStr ''dataset_umkm.json''), (''index'', JNum ''0''),
                        (''kota'', JStr ''Bandung'')]\<rparr>])
   \<and> metadata_spec 0 (JObj [(''nama'', JStr ''Kopi Kita''), (''id'', JNum ''0''),
                             (''kota'', JStr ''Bandung'')])
     = [(''source'', JStr ''dataset_umkm.json''), (''index'', JNum ''0''), (''id'', JNum ''0''),
        (''kota'', JStr ''Bandung'')]
   \<and> snd (loadDocuments ''/app/src/common/data/json/dataset_umkm.json''
          (Parsed (JArr [JObj [(''nama'', JStr ''Kopi Kita''), (''id'', JNum ''0''),
                               (''kota'', JStr ''Bandung'')]])))
     \<noteq> Inr [\<lparr>pageContent = ''nama: Kopi Kita'',
                 metadata = metadata_spec 0 (JObj [(''nama'', JStr ''Kopi Kita''),
                                                   (''id'', JNum ''0''),
                                                   (''kota'', JStr ''Bandung'')])\<rparr>]"
  by (simp add: loadDocuments_def buildDocuments_def makeDocument_def extractContentFromItem_def
      contentFields_def template_def extractMetadataFromItem_def metadataFields_def spread_def
      metadata_spec_def ownField_def show_nat.simps digit_def)

text \<open>
  C2 (amended): when the dataset is an array without \<^verbatim>\<open>null\<close> records, the metadata of
  the document of the record at position \<open>i\<close> is \<^verbatim>\<open>{source: "dataset_umkm.json", index: i}\<close>
  extended with a copy of each field of the allow-list whose value in the record is
  truthy (not \<^verbatim>\<open>null\<close>, \<^verbatim>\<open>false\<close>, \<^verbatim>\<open>0\<close> or the empty string), in the allow-list's
  order, and it has no other keys.
\<close>

theorem loadDocuments_metadata:
  assumes "JNull \<notin> set items" and "i < length items"
  shows "\<exists>docs. snd (loadDocuments path (Parsed (JArr items))) = Inr docs \<and>
           length docs = length items \<and>
           metadata (docs ! i) =
             [(''source'', JStr ''dataset_umkm.json''), (''index'', JNum (show_nat i))] @
             List.map_filter (\<lambda>f. map_option (Pair f) (truthyField (items ! i) f))
               metadataFields \<and>
           map fst (metadata (docs ! i)) =
             ''source'' # ''index'' #
             filter (\<lambda>f. truthy (ownField (items ! i) f)) metadataFields"
proof -
  from loadDocuments_array [OF assms(1), of path] obtain docs where
    run: "snd (loadDocuments path (Parsed (JArr items))) = Inr docs" and
    len: "length docs = length items" and
    each: "\<forall>i < length items. makeDocument (items ! i) i = Inr (docs ! i)"
    by auto
  from assms have "items ! i \<noteq> JNull" by (metis nth_mem)
  from makeDocument_nonnull [OF this, of i] each assms(2) have
    md: "metadata (docs ! i) =
           [(''source'', JStr ''dataset_umkm.json''), (''index'', JNum (show_nat i))] @
           List.map_filter (\<lambda>f. map_option (Pair f) (truthyField (items ! i) f)) metadataFields"
    by auto
  have "(\<lambda>f. truthyField (items ! i) f \<noteq> None) = (\<lambda>f. truthy (ownField (items ! i) f))"
  proof (rule ext)
    fix f
    show "(truthyField (items ! i) f \<noteq> None) = truthy (ownField (items ! i) f)"
      by (cases "ownField (items ! i) f") (simp_all add: truthyField_def)
  qed
  with md have keys: "map fst (metadata (docs ! i)) =
             ''source'' # ''index'' #
             filter (\<lambda>f. truthy (ownField (items ! i) f)) metadataFields"
    by (simp add: truthyFields_keys)
  show ?thesis
  proof (intro exI conjI)
    show "snd (loadDocuments path (Parsed (JArr items))) = Inr docs" by (rule run)
    show "length docs = length items" by (rule len)
    show "metadata (docs ! i) =
           [(''source'', JStr ''dataset_umkm.json''), (''index'', JNum (show_nat i))] @
           List.map_filter (\<lambda>f. map_option (Pair f) (truthyField (items ! i) f)) metadataFields"
      by (rule md)
    show "map fst (metadata (docs ! i)) =
             ''source'' # ''index'' #
             filter (\<lambda>f. truthy (ownField (items ! i) f)) metadataFields"
      by (rule keys)
  qed
qed

theorem loadDocuments_metadata_witness:
  "JNull \<notin> set [JObj [(''nama'', JStr ''Kopi Kita''), (''id'', JNum ''0'')],
                  JObj [(''nama'', JStr ''Batik Sari''), (''id'', JNum ''12''),
                        (''kota'', JStr ''Solo''), (''pemilik'', JStr ''Sari'')]]
   \<and> (\<exists>docs. snd (loadDocuments ''/app/src/common/data/json/dataset_umkm.json''
                (Parsed (JArr [JObj [(''nama'', JStr ''Kopi Kita''), (''id'', JNum ''0'')],
                  JObj [(''nama'', JStr ''Batik Sari''), (''id'', JNum ''12''),
                        (''kota'', JStr ''Solo''), (''pemilik'', JStr ''Sari'')]]))) = Inr docs
         \<and> metadata (docs ! 1) =
             [(''source'', JStr ''dataset_umkm.json''), (''index'', JNum ''1''),
              (''id'', JNum ''12''), (''kota'', JStr ''Solo'')])"
  using loadDocuments_metadata
          [of "[JObj [(''nama'', JStr ''Kopi Kita''), (''id'', JNum ''0'')],
                JObj [(''nama'', JStr ''Batik Sari''), (''id'', JNum ''12''),
                      (''kota'', JStr ''Solo''), (''pemilik'', JStr ''Sari'')]]" 1
              "''/app/src/common/data/json/dataset_umkm.json''"]
  by (auto simp: metadataFields_def truthyField_def ownField_def show_nat.simps digit_def)

section \<open>A dataset that is not an array\<close>

lemma buildDocuments_single:
  assumes "\<forall>items. jsonData \<noteq> JArr items"
  shows "buildDocuments jsonData =
           (case makeDocument jsonData 0 of Inl e \<Rightarrow> Inl e | Inr d \<Rightarrow> Inr [d])"
  using assms by (cases jsonData) (simp_all add: buildDocuments_def split: sum.splits)

text \<open>
  C10, as worded, fails: the dataset file \<^verbatim>\<open>null\<close> parses to a value that is not an
  array, and \<^verbatim>\<open>loadDocuments\<close> throws the TypeError of the first property read.
\<close>

theorem loadDocuments_null_counterexample:
  "loadDocuments ''/app/src/common/data/json/dataset_umkm.json'' (Parsed JNull)
   = ([LogError ''Error loading documents:''
         (TypeError (''Cannot read properties of null (reading '' @ [CHR 0x27] @ ''nama'' @
                     [CHR 0x27] @ '')''))],
      Inl (TypeError (''Cannot read properties of null (reading '' @ [CHR 0x27] @ ''nama'' @
                      [CHR 0x27] @ '')'')))"
  by (simp add: loadDocuments_def buildDocuments_def makeDocument_def extractContent_null)

text \<open>
  C10 (amended): when the dataset parses to a value that is neither an array nor
  \<^verbatim>\<open>null\<close>, \<^verbatim>\<open>loadDocuments\<close> succeeds with exactly one document, built from that
  value as a single record, whose metadata index is 0; and initialization with that
  dataset succeeds whenever the key is configured and the chain can be built from that
  one document.
\<close>

theorem loadDocuments_single_record:
  assumes "jsonData \<noteq> JNull" and "\<forall>items. jsonData \<noteq> JArr items"
  shows "\<exists>content. extractContentFromItem jsonData = Inr content \<and>
           (let d = \<lparr>pageContent = content,
                     metadata = [(''source'', JStr ''dataset_umkm.json''), (''index'', JNum ''0'')] @
                                List.map_filter
                                  (\<lambda>f. map_option (Pair f) (truthyField jsonData f))
                                  metadataFields\<rparr>
            in loadDocuments path (Parsed jsonData) =
                 ([LogInfo ''Loaded 1 documents from JSON file''], Inr [d]) \<and>
               (\<forall>ev key c. apiKey ev = Some key \<and> key \<noteq> [] \<and>
                           jsonPath ev = path \<and> datasetFile ev = Parsed jsonData \<and>
                           fromDocuments ev 5 promptTemplate [d] = Inr c \<longrightarrow>
                    snd (initializeRag ev) = Inr \<lparr>qaChain = Some c\<rparr>))"
proof -
  from makeDocument_nonnull [OF assms(1), of 0] obtain content where
    c: "extractContentFromItem jsonData = Inr content" and
    m: "makeDocument jsonData 0 =
          Inr \<lparr>pageContent = content,
               metadata = [(''source'', JStr ''dataset_umkm.json''), (''index'', JNum ''0'')] @
                          List.map_filter (\<lambda>f. map_option (Pair f) (truthyField jsonData f))
                            metadataFields\<rparr>"
    by auto
  let ?d = "\<lparr>pageContent = content,
             metadata = [(''source'', JStr ''dataset_umkm.json''), (''index'', JNum ''0'')] @
                        List.map_filter (\<lambda>f. map_option (Pair f) (truthyField jsonData f))
                          metadataFields\<rparr>"
  have l: "loadDocuments path (Parsed jsonData) =
             ([LogInfo ''Loaded 1 documents from JSON file''], Inr [?d])"
    using m by (simp add: loadDocuments_def buildDocuments_single [OF assms(2)]
                  show_nat.simps digit_def)
  have "\<forall>ev key c. apiKey ev = Some key \<and> key \<noteq> [] \<and>
                   jsonPath ev = path \<and> datasetFile ev = Parsed jsonData \<and>
                   fromDocuments ev 5 promptTemplate [?d] = Inr c \<longrightarrow>
            snd (initializeRag ev) = Inr \<lparr>qaChain = Some c\<rparr>"
    using l by (auto simp: initializeRag_def Let_def)
  with c l show ?thesis by (simp add: Let_def)
qed

theorem loadDocuments_single_record_witness:
  "JObj [(''nama'', JStr ''Kopi Kita''), (''id'', JNum ''7'')] \<noteq> JNull
   \<and> (\<forall>items. JObj [(''nama'', JStr ''Kopi Kita''), (''id'', JNum ''7'')] \<noteq> JArr items)
   \<and> loadDocuments ''/app/src/common/data/json/dataset_umkm.json''
        (Parsed (JObj [(''nama'', JStr ''Kopi Kita''), (''id'', JNum ''7'')]))
     = ([LogInfo ''Loaded 1 documents from JSON file''],
        Inr [\<lparr>pageContent = ''nama: Kopi Kita'',
              metadata = [(''source'', JStr ''dataset_umkm.json''), (''index'', JNum ''0''),
                          (''id'', JNum ''7'')]\<rparr>])"
  using loadDocuments_single_record
          [of "JObj [(''nama'', JStr ''Kopi Kita''), (''id'', JNum ''7'')]"
              "''/app/src/common/data/json/dataset_umkm.json''"]
  by (auto simp: Let_def metadataFields_def truthyField_def ownField_def
        extractContentFromItem_def contentFields_def template_def)

text \<open>Every document the service builds carries the source label.\<close>

lemma makeDocument_labels:
  assumes "makeDocument item i = Inr d"
  shows "map_of (metadata d) ''source'' = Some (JStr ''dataset_umkm.json'')
         \<and> map_of (metadata d) ''index'' = Some (JNum (show_nat i))"
proof (cases "item = JNull")
  case True
  with assms show ?thesis by (simp add: makeDocument_def extractContent_null)
next
  case False
  from makeDocument_nonnull [OF this, of i] assms show ?thesis by auto
qed

lemma forEachItem_labels:
  "forEachItem items k acc = Inr docs \<Longrightarrow>
   \<forall>d \<in> set acc. map_of (metadata d) ''source'' = Some (JStr ''dataset_umkm.json'') \<Longrightarrow>
   \<forall>d \<in> set docs. map_of (metadata d) ''source'' = Some (JStr ''dataset_umkm.json'')"
proof (induction items arbitrary: k acc)
  case Nil
  then show ?case by simp
next
  case (Cons item items)
  from Cons.prems(1) obtain d where d: "makeDocument item k = Inr d"
    and run: "forEachItem items (Suc k) (acc @ [d]) = Inr docs"
    by (auto split: sum.splits)
  from d Cons.prems(2) have
    "\<forall>x \<in> set (acc @ [d]). map_of (metadata x) ''source'' = Some (JStr ''dataset_umkm.json'')"
    by (auto dest: makeDocument_labels)
  with run show ?case by (rule Cons.IH)
qed

lemma loadDocuments_source_label:
  assumes "snd (loadDocuments path dataset) = Inr docs" and "d \<in> set docs"
  shows "map_of (metadata d) ''source'' = Some (JStr ''dataset_umkm.json'')"
proof -
  from assms(1) obtain jsonData where b: "buildDocuments jsonData = Inr docs"
    by (cases dataset) (auto simp: loadDocuments_def split: sum.splits)
  have "\<forall>d \<in> set docs. map_of (metadata d) ''source'' = Some (JStr ''dataset_umkm.json'')"
  proof (cases "\<exists>items. jsonData = JArr items")
    case True
    then obtain items where "jsonData = JArr items" by blast
    with b have "forEachItem items 0 [] = Inr docs" by (simp add: buildDocuments_def)
    then show ?thesis by (rule forEachItem_labels) simp
  next
    case False
    then have "\<forall>items. jsonData \<noteq> JArr items" by simp
    from b buildDocuments_single [OF this] obtain x where
      "makeDocument jsonData 0 = Inr x" "docs = [x]"
      by (auto split: sum.splits)
    then show ?thesis by (auto dest: makeDocument_labels)
  qed
  with assms(2) show ?thesis by blast
qed

section \<open>Answering a question\<close>

lemma askQuestion_cases:
  "askQuestion svc query =
     (case qaChain svc of
        None \<Rightarrow> ([LogError ''Error processing query:'' (Error ''RAG system is not initialized'')],
                 Inl (Error ''Failed to process query: RAG system is not initialized''))
      | Some c \<Rightarrow>
          (case c query of
             Inl e \<Rightarrow> ([LogInfo (''Processing query: '' @ query), ChainCall query,
                        LogError ''Error processing query:'' e],
                       Inl (Error (''Failed to process query: '' @ message e)))
           | Inr result \<Rightarrow>
               ([LogInfo (''Processing query: '' @ query), ChainCall query],
                Inr \<lparr>answer = orElse (resultText result)
                               (orElse (resultAnswer result)
                                  ''Tidak dapat menemukan jawaban yang sesuai.''),
                     sources = newSet (case sourceDocuments result of
                                         None \<Rightarrow> [] | Some docs \<Rightarrow> sourcesLoop docs 0 [])\<rparr>)))"
  by (simp add: askQuestion_def Let_def split: option.splits sum.splits)

lemma chainCalls_append: "chainCalls (xs @ ys) = chainCalls xs @ chainCalls ys"
  by (induction xs rule: chainCalls.induct) simp_all

text \<open>
  C5, as worded, fails: when the chat model generates the empty text, the answer is not
  that text but the fixed apology.
\<close>

theorem askQuestion_answer_counterexample:
  "snd (askQuestion \<lparr>qaChain = Some (\<lambda>q. Inr \<lparr>resultText = Some [], resultAnswer = None,
                                              sourceDocuments = Some []\<rparr>)\<rparr> ''halo'')
     = Inr \<lparr>answer = ''Tidak dapat menemukan jawaban yang sesuai.'', sources = []\<rparr>"
  by (simp add: askQuestion_cases orElse_def newSet_def)

text \<open>
  C5 (amended): for every query for which the chain completes, the answer is the text
  the chain generated when that text is not empty; when it is empty or absent, the
  answer is the chain's \<^verbatim>\<open>answer\<close> value if that is a non-empty string, and otherwise
  the fixed message \<^verbatim>\<open>Tidak dapat menemukan jawaban yang sesuai.\<close>
\<close>

theorem askQuestion_answer:
  assumes "qaChain svc = Some c" and "c query = Inr result"
  shows "\<exists>r. snd (askQuestion svc query) = Inr r \<and>
           answer r =
             (case resultText result of
                Some (x # xs) \<Rightarrow> x # xs
              | _ \<Rightarrow> (case resultAnswer result of
                         Some (y # ys) \<Rightarrow> y # ys
                       | _ \<Rightarrow> ''Tidak dapat menemukan jawaban yang sesuai.''))"
  using assms by (simp add: askQuestion_cases orElse_def split: option.splits list.splits)

theorem askQuestion_answer_witness:
  "\<exists>r. snd (askQuestion
              \<lparr>qaChain = Some (\<lambda>q. Inr \<lparr>resultText = Some ''Ada 3 kategori.'',
                                        resultAnswer = None, sourceDocuments = None\<rparr>)\<rparr>
              ''Apa saja kategori UMKM?'') = Inr r
       \<and> answer r = ''Ada 3 kategori.''"
  using askQuestion_answer
          [of "\<lparr>qaChain = Some (\<lambda>q. Inr \<lparr>resultText = Some ''Ada 3 kategori.'',
                                          resultAnswer = None, sourceDocuments = None\<rparr>)\<rparr>"
              "\<lambda>q. Inr \<lparr>resultText = Some ''Ada 3 kategori.'',
                         resultAnswer = None, sourceDocuments = None\<rparr>"
              "''Apa saja kategori UMKM?''"
              "\<lparr>resultText = Some ''Ada 3 kategori.'', resultAnswer = None,
                sourceDocuments = None\<rparr>"]
  by simp

text \<open>
  C7: when the chain has not been built, \<^verbatim>\<open>askQuestion\<close> fails with an error whose
  message says that the RAG system is not initialized, and the chain (retrieval and
  generation) is not called.
\<close>

theorem askQuestion_not_initialized:
  assumes "qaChain svc = None"
  shows "askQuestion svc query =
           ([LogError ''Error processing query:'' (Error ''RAG system is not initialized'')],
            Inl (Error ''Failed to process query: RAG system is not initialized''))
         \<and> chainCalls (fst (askQuestion svc query)) = []"
  using assms by (simp add: askQuestion_def)

theorem askQuestion_not_initialized_witness:
  "qaChain \<lparr>qaChain = None\<rparr> = None
   \<and> snd (askQuestion \<lparr>qaChain = None\<rparr> ''Apa saja kategori UMKM?'') =
       Inl (Error ''Failed to process query: RAG system is not initialized'')
   \<and> chainCalls (fst (askQuestion \<lparr>qaChain = None\<rparr> ''Apa saja kategori UMKM?'')) = []"
  using askQuestion_not_initialized [of "\<lparr>qaChain = None\<rparr>" "''Apa saja kategori UMKM?''"]
  by simp

text \<open>
  C8: an error of the chain is caught, logged once and raised again as
  \<^verbatim>\<open>Failed to process query: <original message>\<close>, after a single call of the chain and
  without a response; and every failure of \<^verbatim>\<open>askQuestion\<close> has this shape, its origin
  being either the chain or the missing initialization.
\<close>

theorem askQuestion_errors_wrapped:
  "(qaChain svc = Some c \<and> c query = Inl e \<longrightarrow>
      askQuestion svc query =
        ([LogInfo (''Processing query: '' @ query), ChainCall query,
          LogError ''Error processing query:'' e],
         Inl (Error (''Failed to process query: '' @ message e))))
   \<and> (snd (askQuestion svc query) = Inl err \<longrightarrow>
        (\<exists>e. (qaChain svc = None \<and> e = Error ''RAG system is not initialized''
              \<or> (\<exists>c. qaChain svc = Some c \<and> c query = Inl e))
           \<and> err = Error (''Failed to process query: '' @ message e)
           \<and> errorsLogged (fst (askQuestion svc query)) = [(''Error processing query:'', e)]
           \<and> length (chainCalls (fst (askQuestion svc query))) \<le> 1))"
  by (auto simp: askQuestion_cases split: option.splits sum.splits)

theorem askQuestion_errors_wrapped_witness:
  "askQuestion \<lparr>qaChain = Some (\<lambda>q. Inl (Error ''429 Too Many Requests''))\<rparr> ''halo'' =
     ([LogInfo ''Processing query: halo'', ChainCall ''halo'',
       LogError ''Error processing query:'' (Error ''429 Too Many Requests'')],
      Inl (Error ''Failed to process query: 429 Too Many Requests''))
   \<and> errorsLogged
        (fst (askQuestion \<lparr>qaChain = Some (\<lambda>q. Inl (Error ''429 Too Many Requests''))\<rparr> ''halo''))
      = [(''Error processing query:'', Error ''429 Too Many Requests'')]"
  using askQuestion_errors_wrapped
          [of "\<lparr>qaChain = Some (\<lambda>q. Inl (Error ''429 Too Many Requests''))\<rparr>"
              "\<lambda>q. Inl (Error ''429 Too Many Requests'')" "''halo''"
              "Error ''429 Too Many Requests''"
              "Error ''Failed to process query: 429 Too Many Requests''"]
  by simp

section \<open>Source references\<close>








section \<open>Insights\<close>

text \<open>
  C9, as worded, fails: when \<^verbatim>\<open>askQuestion\<close> fails, \<^verbatim>\<open>getInsights\<close> does not hand its
  error on but logs it and raises a new one with a second prefix.
\<close>

theorem getInsights_counterexample:
  "getInsights \<lparr>qaChain = None\<rparr> \<noteq> askQuestion \<lparr>qaChain = None\<rparr> insightsPrompt
   \<and> snd (askQuestion \<lparr>qaChain = None\<rparr> insightsPrompt) =
       Inl (Error ''Failed to process query: RAG system is not initialized'')
   \<and> snd (getInsights \<lparr>qaChain = None\<rparr>) =
       Inl (Error ''Failed to generate insights: Failed to process query: RAG system is not initialized'')"
  by (simp add: getInsights_def askQuestion_cases)

text \<open>
  C9 (amended): \<^verbatim>\<open>getInsights\<close> calls the chain exactly as \<^verbatim>\<open>askQuestion\<close> does for
  the fixed prompt; when that call of \<^verbatim>\<open>askQuestion\<close> succeeds, the result of
  \<^verbatim>\<open>getInsights\<close> equals it; when it fails with message \<open>m\<close>, \<^verbatim>\<open>getInsights\<close> logs the
  error and fails with \<^verbatim>\<open>Failed to generate insights: m\<close>.
\<close>

theorem getInsights_delegates:
  "(snd (askQuestion svc insightsPrompt) = Inr r \<longrightarrow>
      getInsights svc = askQuestion svc insightsPrompt)
   \<and> (snd (askQuestion svc insightsPrompt) = Inl e \<longrightarrow>
        getInsights svc =
          (fst (askQuestion svc insightsPrompt) @ [LogError ''Error getting insights:'' e],
           Inl (Error (''Failed to generate insights: '' @ message e))))
   \<and> chainCalls (fst (getInsights svc)) = chainCalls (fst (askQuestion svc insightsPrompt))"
  by (cases "askQuestion svc insightsPrompt")
     (auto simp: getInsights_def chainCalls_append split: sum.splits)

theorem getInsights_delegates_witness:
  "snd (askQuestion \<lparr>qaChain = Some (\<lambda>q. Inr \<lparr>resultText = Some ''Insight'', resultAnswer = None,
                                              sourceDocuments = None\<rparr>)\<rparr> insightsPrompt)
     = Inr \<lparr>answer = ''Insight'', sources = []\<rparr>
   \<and> snd (getInsights \<lparr>qaChain = Some (\<lambda>q. Inr \<lparr>resultText = Some ''Insight'', resultAnswer = None,
                                              sourceDocuments = None\<rparr>)\<rparr>)
     = Inr \<lparr>answer = ''Insight'', sources = []\<rparr>
   \<and> snd (askQuestion \<lparr>qaChain = None\<rparr> insightsPrompt)
     = Inl (Error ''Failed to process query: RAG system is not initialized'')
   \<and> snd (getInsights \<lparr>qaChain = None\<rparr>)
     = Inl (Error ''Failed to generate insights: Failed to process query: RAG system is not initialized'')"
  using getInsights_delegates
          [of "\<lparr>qaChain = Some (\<lambda>q. Inr \<lparr>resultText = Some ''Insight'', resultAnswer = None,
                                          sourceDocuments = None\<rparr>)\<rparr>"
              "\<lparr>answer = ''Insight'', sources = []\<rparr>" "Error []"]
        getInsights_delegates
          [of "\<lparr>qaChain = None\<rparr>" "\<lparr>answer = [], sources = []\<rparr>"
              "Error ''Failed to process query: RAG system is not initialized''"]
  by (simp add: askQuestion_cases orElse_def newSet_def)

section \<open>The question of a request\<close>

text \<open>
  C6, as worded, fails: the controller trims the question before it hands it on, so the
  body \<^verbatim>\<open>{"question": " hi "}\<close> reaches the chain as \<^verbatim>\<open>hi\<close>.
\<close>

theorem RagController_query_counterexample:
  "chainCalls (fst (RagController_query
      \<lparr>qaChain = Some (\<lambda>q. Inr \<lparr>resultText = Some q, resultAnswer = None,
                                sourceDocuments = Some []\<rparr>)\<rparr> \<lparr>question = '' hi ''\<rparr>)) = [''hi'']
   \<and> chainCalls (fst (RagController_query
      \<lparr>qaChain = Some (\<lambda>q. Inr \<lparr>resultText = Some q, resultAnswer = None,
                                sourceDocuments = Some []\<rparr>)\<rparr> \<lparr>question = '' hi ''\<rparr>)) \<noteq> ['' hi '']"
  by (simp add: RagController_query_def askQuestion_cases trim_def whiteSpace_def)

text \<open>
  C6 (amended): for every request to an initialized service, the chain is called once,
  and the query it is called with (the string it retrieves for and substitutes into the
  prompt) is the question of the request body with the white space at both ends
  removed; the response is that of \<^verbatim>\<open>askQuestion\<close> for the trimmed question.
\<close>

theorem RagController_query_trimmed:
  assumes "qaChain svc = Some c"
  shows "chainCalls (fst (RagController_query svc queryDto)) = [trim (question queryDto)]
         \<and> RagController_query svc queryDto = askQuestion svc (trim (question queryDto))"
  using assms
  by (cases "c (trim (question queryDto))") (simp_all add: RagController_query_def askQuestion_cases)

theorem RagController_query_trimmed_witness:
  "RagController_query
      \<lparr>qaChain = Some (\<lambda>q. Inr \<lparr>resultText = Some q, resultAnswer = None,
                                sourceDocuments = Some []\<rparr>)\<rparr>
      \<lparr>question = [CHR 0x09] @ ''Apa itu UMKM?'' @ [CHR 0x0A]\<rparr>
   = ([LogInfo ''Processing query: Apa itu UMKM?'', ChainCall ''Apa itu UMKM?''],
      Inr \<lparr>answer = ''Apa itu UMKM?'', sources = []\<rparr>)"
  using RagController_query_trimmed
          [of "\<lparr>qaChain = Some (\<lambda>q. Inr \<lparr>resultText = Some q, resultAnswer = None,
                                          sourceDocuments = Some []\<rparr>)\<rparr>"
              "\<lambda>q. Inr \<lparr>resultText = Some q, resultAnswer = None, sourceDocuments = Some []\<rparr>"
              "\<lparr>question = [CHR 0x09] @ ''Apa itu UMKM?'' @ [CHR 0x0A]\<rparr>"]
  by (simp add: askQuestion_cases trim_def whiteSpace_def orElse_def newSet_def)

end
